theory Spec2Isabelle
  imports Main "HOL-Library.Word"
begin

section \<open>Values and effects of \<^verbatim>\<open>ocr_pdf.py\<close>\<close>

text \<open>
  The script is a linear pipeline: check that the input path exists, render the PDF into
  page images, base64-encode each page as PNG, POST it to an inference server, collect
  one labelled block per page that produced text, and write the joined blocks to a file
  or to standard output.

  Every function of the script is embedded as a function that returns its value together
  with the effects it performed, as a list of events in program order. What the outside
  world answers (the file system, the PDF renderer, the PNG serialiser, the HTTP server)
  is a parameter, the environment. Library calls that the source guards with
  \<^verbatim>\<open>try\<close>/\<^verbatim>\<open>except\<close> can fail in the model; \<^verbatim>\<open>print\<close>,
  \<^verbatim>\<open>open(..., 'w')\<close>, \<^verbatim>\<open>f.write\<close> and \<^verbatim>\<open>image.save\<close>, for whose failure the
  source has no handler, are modelled as succeeding.
\<close>

type_synonym byte = "8 word"

text \<open>
  A Python value as the script observes the result of the inference client: \<^verbatim>\<open>None\<close>,
  a \<^verbatim>\<open>str\<close>, or any other JSON value (number, boolean, list, object), of which the
  script only ever takes the truth value (\<^verbatim>\<open>if text:\<close>) and the \<^verbatim>\<open>str()\<close> rendering
  (inside the f-string); such a value is represented by these two observations.
\<close>

datatype pyval = PyNone | PyStr string | PyOther bool string

fun truthy :: "pyval \<Rightarrow> bool" where
  "truthy PyNone = False"
| "truthy (PyStr s) = (s \<noteq> [])"
| "truthy (PyOther t r) = t"

fun py_format :: "pyval \<Rightarrow> string" where
  "py_format PyNone = ''None''"
| "py_format (PyStr s) = s"
| "py_format (PyOther t r) = r"

text \<open>The JSON values that occur in the request body.\<close>

datatype jval = JStr string | JBool bool | JList "jval list"

type_synonym payload = "(string \<times> jval) list"
type_synonym headers = "(string \<times> string) list"

text \<open>
  What \<^verbatim>\<open>response.json()\<close> returns: a dict, or a value of another Python type (given by
  the name of that type), on which \<^verbatim>\<open>.get\<close> raises \<^verbatim>\<open>AttributeError\<close>.
\<close>

datatype pyjson = PyDict "string \<Rightarrow> pyval option" | PyNonDict string

text \<open>
  A \<^verbatim>\<open>requests.Response\<close>: its HTTP status code, the text of the \<^verbatim>\<open>HTTPError\<close> that
  the library builds for it when the status is an error, and the outcome of \<^verbatim>\<open>json()\<close>,
  which raises with a message or returns the parsed body. An exception is represented by
  its message, the text of \<^verbatim>\<open>str(e)\<close>.
\<close>

record response =
  status_code :: nat
  http_error :: string
  json :: "string + pyjson"

text \<open>
  \<^verbatim>\<open>response.raise_for_status()\<close> belongs to the requests library and is not part of the
  repository. As that library defines it, it raises \<^verbatim>\<open>HTTPError\<close> exactly for the client
  and server error statuses, 400 to 599, and returns for every other status, also for the
  ones below 200 and from 300 to 399. The result is the message of the exception raised,
  if any.
\<close>

definition raise_for_status :: "response \<Rightarrow> string option" where
  "raise_for_status resp =
     (if 400 \<le> status_code resp \<and> status_code resp < 600 then Some (http_error resp) else None)"

datatype event =
    Stderr string
  | Stdout string
  | ConvertFromPath string
  | Post string payload headers
  | WriteFile string string

text \<open>
  The environment. \<open>requests_post env c url body hdrs\<close> is the outcome of the call
  \<^verbatim>\<open>requests.post(url, json=body, headers=hdrs)\<close> when \<open>c\<close> requests have been issued
  before it: \<open>Inl msg\<close> when the call raises (a transport error), \<open>Inr r\<close> when it returns
  the response \<open>r\<close>.
\<close>

record 'img env =
  path_str :: "string \<Rightarrow> string"
  path_exists :: "string \<Rightarrow> bool"
  convert_from_path :: "string \<Rightarrow> string + 'img list"
  png_bytes :: "'img \<Rightarrow> byte list"
  requests_post :: "nat \<Rightarrow> string \<Rightarrow> payload \<Rightarrow> headers \<Rightarrow> string + response"

record args =
  pdf_file :: string
  model :: string
  server :: string
  output_opt :: "string option"

subsection \<open>String helpers\<close>

definition nl :: string where
  "nl = [CHR 0x0A]"

text \<open>The decimal rendering of a natural number, as an f-string renders an \<^verbatim>\<open>int\<close>.\<close>

definition digit :: "nat \<Rightarrow> char" where
  "digit d = ''0123456789'' ! d"

fun str_nat :: "nat \<Rightarrow> string" where
  "str_nat n = (if n < 10 then [digit n] else str_nat (n div 10) @ [digit (n mod 10)])"

declare str_nat.simps [simp del]

text \<open>\<^verbatim>\<open>sep.join(xs)\<close>\<close>

fun join :: "string \<Rightarrow> string list \<Rightarrow> string" where
  "join sep [] = []"
| "join sep [x] = x"
| "join sep (x # y # ys) = x @ sep @ join sep (y # ys)"


subsection \<open>Standard base64\<close>

text \<open>
  Modelled from the spec: \<^verbatim>\<open>base64.b64encode\<close> belongs to the Python standard library and
  is not part of the repository; the spec calls it "standard base64". Three bytes become
  four characters of the alphabet below, six bits each, most significant first; a last
  group of one or two bytes is padded with \<^verbatim>\<open>=\<close> to four characters.
\<close>

definition b64_alphabet :: string where
  "b64_alphabet = ''ABCDEFGHIJKLMNOPQRSTUVWXYZabcdefghijklmnopqrstuvwxyz0123456789+/''"

definition b64_char :: "nat \<Rightarrow> char" where
  "b64_char n = b64_alphabet ! (n mod 64)"

fun b64encode :: "byte list \<Rightarrow> string" where
  "b64encode [] = []"
| "b64encode [a] =
     [b64_char (unat a div 4), b64_char (unat a mod 4 * 16), CHR ''='', CHR ''='']"
| "b64encode [a, b] =
     [b64_char (unat a div 4), b64_char (unat a mod 4 * 16 + unat b div 16),
      b64_char (unat b mod 16 * 4), CHR ''='']"
| "b64encode (a # b # c # rest) =
     [b64_char (unat a div 4), b64_char (unat a mod 4 * 16 + unat b div 16),
      b64_char (unat b mod 16 * 4 + unat c div 64), b64_char (unat c mod 64)]
     @ b64encode rest"

text \<open>
  Modelled from the spec: the decoder of standard base64, the inverse direction that the
  round-trip property of the spec speaks of. It is strict: \<open>None\<close> on a character outside
  the alphabet, on a length that is not a multiple of four or on misplaced padding.
\<close>

definition b64_index :: "char \<Rightarrow> nat option" where
  "b64_index ch = map_of (zip b64_alphabet [0..<64]) ch"

fun b64decode :: "string \<Rightarrow> byte list option" where
  "b64decode [] = Some []"
| "b64decode (w # x # y # z # rest) =
     (case (b64_index w, b64_index x) of
        (Some p, Some q) \<Rightarrow>
          if y = CHR ''='' \<and> z = CHR ''='' \<and> rest = []
          then Some [of_nat (p * 4 + q div 16)]
          else (case b64_index y of
                  Some r \<Rightarrow>
                    if z = CHR ''='' \<and> rest = []
                    then Some [of_nat (p * 4 + q div 16), of_nat (q mod 16 * 16 + r div 4)]
                    else (case (b64_index z, b64decode rest) of
                            (Some s, Some bs) \<Rightarrow>
                              Some (of_nat (p * 4 + q div 16)
                                    # of_nat (q mod 16 * 16 + r div 4)
                                    # of_nat (r mod 4 * 64 + s) # bs)
                          | _ \<Rightarrow> None)
                | None \<Rightarrow> None)
      | _ \<Rightarrow> None)"
| "b64decode _ = None"

section \<open>The functions of the script\<close>

subsection \<open>\<^verbatim>\<open>convert_pdf_to_images\<close> (lines 18 to 25)\<close>

text \<open>
  Returns the images, or the exit status with which \<^verbatim>\<open>sys.exit\<close> ends the process, and
  the events performed.
\<close>

definition convert_pdf_to_images :: "'img env \<Rightarrow> string \<Rightarrow> (nat + 'img list) \<times> event list" where
  "convert_pdf_to_images env pdf_path =
     (case convert_from_path env pdf_path of
        Inr images \<Rightarrow> (Inr images, [ConvertFromPath pdf_path])
      | Inl e \<Rightarrow> (Inl 1, [ConvertFromPath pdf_path, Stderr (''Error converting PDF: '' @ e)]))"

subsection \<open>\<^verbatim>\<open>image_to_base64\<close> (lines 28 to 34)\<close>

definition image_to_base64 :: "'img env \<Rightarrow> 'img \<Rightarrow> string" where
  "image_to_base64 env img = b64encode (png_bytes env img)"

subsection \<open>\<^verbatim>\<open>ocr_image_with_ollama\<close> (lines 37 to 56)\<close>

definition prompt_text :: string where
  "prompt_text = ''Extract and return all text from this image. Provide only the text content without any additional commentary.''"

definition make_payload :: "string \<Rightarrow> string \<Rightarrow> payload" where
  "make_payload mdl base64_image =
     [(''model'', JStr mdl),
      (''prompt'', JStr prompt_text),
      (''stream'', JBool False),
      (''images'', JList [JStr base64_image])]"

definition json_headers :: headers where
  "json_headers = [(''Content-Type'', ''application/json'')]"

text \<open>\<^verbatim>\<open>d.get(key, default)\<close>\<close>

definition dict_get :: "(string \<Rightarrow> pyval option) \<Rightarrow> string \<Rightarrow> pyval \<Rightarrow> pyval" where
  "dict_get d k dflt = (case d k of Some v \<Rightarrow> v | None \<Rightarrow> dflt)"

text \<open>
  The statements inside \<^verbatim>\<open>try\<close>: the value returned, or the message of the exception
  raised by \<^verbatim>\<open>requests.post\<close>, by \<^verbatim>\<open>raise_for_status\<close>, by \<^verbatim>\<open>json\<close>, or by \<^verbatim>\<open>.get\<close> on
  a parsed body that is not a dict.
\<close>

definition attribute_error :: "string \<Rightarrow> string" where
  "attribute_error tn =
     [CHR 0x27] @ tn @ [CHR 0x27] @ '' object has no attribute '' @ [CHR 0x27] @ ''get'' @ [CHR 0x27]"

definition try_request :: "'img env \<Rightarrow> nat \<Rightarrow> string \<Rightarrow> payload \<Rightarrow> string + pyval" where
  "try_request env c server_url payload =
     (case requests_post env c server_url payload json_headers of
        Inl e \<Rightarrow> Inl e
      | Inr resp \<Rightarrow>
          (case raise_for_status resp of
             Some e \<Rightarrow> Inl e
           | None \<Rightarrow>
               (case json resp of
                  Inl e \<Rightarrow> Inl e
                | Inr (PyNonDict tn) \<Rightarrow> Inl (attribute_error tn)
                | Inr (PyDict d) \<Rightarrow> Inr (dict_get d ''response'' (PyStr '''')))))"

text \<open>
  \<open>c\<close> is the number of requests issued before this call; it selects the answer of the
  environment. The result is the returned value and the events of this call: the request,
  and in the \<^verbatim>\<open>except\<close> branch one line on the diagnostic stream.
\<close>

definition ocr_image_with_ollama ::
  "'img env \<Rightarrow> nat \<Rightarrow> string \<Rightarrow> string \<Rightarrow> string \<Rightarrow> pyval \<times> event list" where
  "ocr_image_with_ollama env c base64_image mdl server_url =
     (let payload = make_payload mdl base64_image
      in case try_request env c server_url payload of
           Inr v \<Rightarrow> (v, [Post server_url payload json_headers])
         | Inl e \<Rightarrow>
             (PyNone, [Post server_url payload json_headers,
                       Stderr (''Error calling Ollama API: '' @ e)]))"

subsection \<open>\<^verbatim>\<open>main\<close> (lines 59 to 97)\<close>

text \<open>The number of requests issued so far, read off the events.\<close>

definition n_posts :: "event list \<Rightarrow> nat" where
  "n_posts tr = length (filter (\<lambda>e. case e of Post u p h \<Rightarrow> True | _ \<Rightarrow> False) tr)"

text \<open>The f-string of line 86, \<^verbatim>\<open>f"--- Page {i} ---\n{text}\n"\<close>.\<close>

definition page_block :: "nat \<Rightarrow> pyval \<Rightarrow> string" where
  "page_block i text = ''--- Page '' @ str_nat i @ '' ---'' @ nl @ py_format text @ nl"

text \<open>
  The loop of lines 80 to 88 over \<^verbatim>\<open>enumerate(images, 1)\<close>; \<open>n\<close> is \<^verbatim>\<open>len(images)\<close>. The
  state is the list \<^verbatim>\<open>all_text\<close> and the events so far.
\<close>

fun process_pages ::
  "'img env \<Rightarrow> args \<Rightarrow> nat \<Rightarrow> (nat \<times> 'img) list \<Rightarrow> string list \<times> event list
     \<Rightarrow> string list \<times> event list" where
  "process_pages env a n [] st = st"
| "process_pages env a n ((i, img) # rest) (all_text, tr) =
     (let tr1 = tr @ [Stderr (''Processing page '' @ str_nat i @ ''/'' @ str_nat n @ ''...'')];
          base64_image = image_to_base64 env img;
          (text, evs) = ocr_image_with_ollama env (n_posts tr1) base64_image (model a) (server a);
          tr2 = tr1 @ evs
      in if truthy text
         then process_pages env a n rest (all_text @ [page_block i text], tr2)
         else process_pages env a n rest
                (all_text, tr2 @ [Stderr (''Warning: No text extracted from page '' @ str_nat i)]))"

text \<open>\<^verbatim>\<open>enumerate(xs, 1)\<close>\<close>

definition enumerate1 :: "'a list \<Rightarrow> (nat \<times> 'a) list" where
  "enumerate1 xs = zip [1..<Suc (length xs)] xs"

text \<open>
  Lines 76 to 90, reached once the pages are rendered: the page count on the diagnostic
  stream, the loop, and the final output \<^verbatim>\<open>result\<close>, returned with the events.
\<close>

definition ocr_pages :: "'img env \<Rightarrow> args \<Rightarrow> 'img list \<Rightarrow> event list \<Rightarrow> string \<times> event list" where
  "ocr_pages env a images tr =
     (let tr1 = tr @ [Stderr (''Processing '' @ str_nat (length images) @ '' page(s)...'')];
          (all_text, tr2) = process_pages env a (length images) (enumerate1 images) ([], tr1)
      in (join nl all_text, tr2))"

text \<open>
  Lines 92 to 97. \<^verbatim>\<open>if args.output:\<close> is false for an option that was not given and for
  an empty file name. \<^verbatim>\<open>print(result)\<close> writes the string and a newline.
\<close>

definition emit :: "args \<Rightarrow> string \<Rightarrow> event list" where
  "emit a result =
     (case output_opt a of
        Some out \<Rightarrow>
          if out \<noteq> []
          then [WriteFile out result, Stderr (''Output written to '' @ out)]
          else [Stdout (result @ nl)]
      | None \<Rightarrow> [Stdout (result @ nl)])"

text \<open>The exit status of the process and every event of the run.\<close>

definition main :: "'img env \<Rightarrow> args \<Rightarrow> nat \<times> event list" where
  "main env a =
     (let pdf_path = path_str env (pdf_file a)
      in if \<not> path_exists env pdf_path
         then (1, [Stderr (''Error: File '' @ [CHR 0x27] @ pdf_path @ [CHR 0x27] @ '' not found'')])
         else
           (let tr = [Stderr ''Converting PDF to images...'']
            in case convert_pdf_to_images env pdf_path of
                 (Inl status, evs) \<Rightarrow> (status, tr @ evs)
               | (Inr images, evs) \<Rightarrow>
                   (let (result, tr') = ocr_pages env a images (tr @ evs)
                    in (0, tr' @ emit a result))))"

section \<open>Notions used to state the properties\<close>

subsection \<open>What a run did, read off its events\<close>

definition stdout_of :: "event list \<Rightarrow> string" where
  "stdout_of tr = concat (map (\<lambda>e. case e of Stdout s \<Rightarrow> s | _ \<Rightarrow> []) tr)"

definition files_of :: "event list \<Rightarrow> (string \<times> string) list" where
  "files_of tr = concat (map (\<lambda>e. case e of WriteFile f s \<Rightarrow> [(f, s)] | _ \<Rightarrow> []) tr)"

definition posts_of :: "event list \<Rightarrow> (string \<times> payload \<times> headers) list" where
  "posts_of tr = concat (map (\<lambda>e. case e of Post u p h \<Rightarrow> [(u, p, h)] | _ \<Rightarrow> []) tr)"

definition renders_of :: "event list \<Rightarrow> string list" where
  "renders_of tr = concat (map (\<lambda>e. case e of ConvertFromPath p \<Rightarrow> [p] | _ \<Rightarrow> []) tr)"

subsection \<open>The pages of a run\<close>

text \<open>
  Page \<open>i\<close> (counted from 1) is sent by the request that follows \<open>i - 1\<close> earlier ones.
  \<open>page_request\<close> is the body of that request, \<open>page_text\<close> the value that the inference
  client returns for it, \<open>page_events\<close> everything the run does for the page.
\<close>

definition page_request :: "'img env \<Rightarrow> args \<Rightarrow> 'img list \<Rightarrow> nat \<Rightarrow> payload" where
  "page_request env a images i =
     make_payload (model a) (image_to_base64 env (images ! (i - 1)))"

definition page_text :: "'img env \<Rightarrow> args \<Rightarrow> 'img list \<Rightarrow> nat \<Rightarrow> pyval" where
  "page_text env a images i =
     fst (ocr_image_with_ollama env (i - 1) (image_to_base64 env (images ! (i - 1)))
            (model a) (server a))"

definition page_events :: "'img env \<Rightarrow> args \<Rightarrow> 'img list \<Rightarrow> nat \<Rightarrow> event list" where
  "page_events env a images i =
     Stderr (''Processing page '' @ str_nat i @ ''/'' @ str_nat (length images) @ ''...'')
     # snd (ocr_image_with_ollama env (i - 1) (image_to_base64 env (images ! (i - 1)))
              (model a) (server a))
     @ (if truthy (page_text env a images i) then []
        else [Stderr (''Warning: No text extracted from page '' @ str_nat i)])"

text \<open>
  The final output of a run of \<open>main\<close> whose rendering returned \<open>images\<close>: the value of
  \<^verbatim>\<open>result\<close> at line 90.
\<close>

definition run_output :: "'img env \<Rightarrow> args \<Rightarrow> 'img list \<Rightarrow> string" where
  "run_output env a images =
     fst (ocr_pages env a images
            [Stderr ''Converting PDF to images...'', ConvertFromPath (path_str env (pdf_file a))])"

subsection \<open>Sample runs\<close>

text \<open>A response with a success status whose body is the JSON object \<open>d\<close>.\<close>

definition ok_response :: "(string \<Rightarrow> pyval option) \<Rightarrow> response" where
  "ok_response d = \<lparr>status_code = 200, http_error = [], json = Inr (PyDict d)\<rparr>"

text \<open>
  An environment in which only \<^verbatim>\<open>scan.pdf\<close> exists, with \<open>n\<close> pages, and in which the
  request that follows \<open>c\<close> earlier ones is answered by \<open>answers c\<close>.
\<close>

definition sample_env :: "nat \<Rightarrow> (nat \<Rightarrow> string + response) \<Rightarrow> nat env" where
  "sample_env n answers =
     \<lparr>path_str = (\<lambda>p. p),
      path_exists = (\<lambda>p. p = ''scan.pdf''),
      convert_from_path = (\<lambda>p. Inr [0..<n]),
      png_bytes = (\<lambda>i. [137, 80, 78, 71, of_nat i]),
      requests_post = (\<lambda>c u p h. answers c)\<rparr>"

definition sample_args :: "string \<Rightarrow> string option \<Rightarrow> args" where
  "sample_args file out =
     \<lparr>pdf_file = file, model = ''gemma3:27b'',
      server = ''http://10.147.17.205:11434/api/generate'', output_opt = out\<rparr>"

definition hello_then_empty :: "nat \<Rightarrow> string + response" where
  "hello_then_empty c =
     (if c = 0 then Inr (ok_response [''response'' \<mapsto> PyStr ''Hello''])
      else Inr (ok_response [''response'' \<mapsto> PyStr '''']))"

definition second_omits_field :: "nat \<Rightarrow> string + response" where
  "second_omits_field c =
     (if c = 1 then Inr (ok_response [''done'' \<mapsto> PyOther True ''True''])
      else Inr (ok_response [''response'' \<mapsto> PyStr ''text'']))"



definition second_refused :: "nat \<Rightarrow> string + response" where
  "second_refused c =
     (if c = 1 then Inl ''Connection refused''
      else Inr (ok_response [''response'' \<mapsto> PyStr ''text'']))"

definition second_empty :: "nat \<Rightarrow> string + response" where
  "second_empty c =
     (if c = 1 then Inr (ok_response [''response'' \<mapsto> PyStr ''''])
      else Inr (ok_response [''response'' \<mapsto> PyStr ''text'']))"

text \<open>
  The environment \<open>env\<close> with one answer replaced: the request that follows \<open>c\<close> earlier
  ones succeeds with the empty text.
\<close>

definition empty_instead :: "nat env \<Rightarrow> nat \<Rightarrow> nat env" where
  "empty_instead env c =
     env\<lparr>requests_post :=
           (requests_post env)(c := (\<lambda>u p h. Inr (ok_response [''response'' \<mapsto> PyStr ''''])))\<rparr>"

section \<open>Helper lemmas\<close>

subsection \<open>Reading events\<close>

lemma n_posts_simps [simp]:
  "n_posts [] = 0"
  "n_posts (Post u p h # tr) = Suc (n_posts tr)"
  "n_posts (Stderr s # tr) = n_posts tr"
  "n_posts (Stdout s # tr) = n_posts tr"
  "n_posts (ConvertFromPath s # tr) = n_posts tr"
  "n_posts (WriteFile f s # tr) = n_posts tr"
  "n_posts (tr @ tr') = n_posts tr + n_posts tr'"
  by (simp_all add: n_posts_def)

lemma stdout_of_simps [simp]:
  "stdout_of [] = []"
  "stdout_of (Post u p h # tr) = stdout_of tr"
  "stdout_of (Stderr s # tr) = stdout_of tr"
  "stdout_of (Stdout s # tr) = s @ stdout_of tr"
  "stdout_of (ConvertFromPath s # tr) = stdout_of tr"
  "stdout_of (WriteFile f s # tr) = stdout_of tr"
  "stdout_of (tr @ tr') = stdout_of tr @ stdout_of tr'"
  by (simp_all add: stdout_of_def)

lemma files_of_simps [simp]:
  "files_of [] = []"
  "files_of (Post u p h # tr) = files_of tr"
  "files_of (Stderr s # tr) = files_of tr"
  "files_of (Stdout s # tr) = files_of tr"
  "files_of (ConvertFromPath s # tr) = files_of tr"
  "files_of (WriteFile f s # tr) = (f, s) # files_of tr"
  "files_of (tr @ tr') = files_of tr @ files_of tr'"
  by (simp_all add: files_of_def)

lemma posts_of_simps [simp]:
  "posts_of [] = []"
  "posts_of (Post u p h # tr) = (u, p, h) # posts_of tr"
  "posts_of (Stderr s # tr) = posts_of tr"
  "posts_of (Stdout s # tr) = posts_of tr"
  "posts_of (ConvertFromPath s # tr) = posts_of tr"
  "posts_of (WriteFile f s # tr) = posts_of tr"
  "posts_of (tr @ tr') = posts_of tr @ posts_of tr'"
  by (simp_all add: posts_of_def)

lemma renders_of_simps [simp]:
  "renders_of [] = []"
  "renders_of (Post u p h # tr) = renders_of tr"
  "renders_of (Stderr s # tr) = renders_of tr"
  "renders_of (Stdout s # tr) = renders_of tr"
  "renders_of (ConvertFromPath s # tr) = s # renders_of tr"
  "renders_of (WriteFile f s # tr) = renders_of tr"
  "renders_of (tr @ tr') = renders_of tr @ renders_of tr'"
  by (simp_all add: renders_of_def)

lemma stdout_of_concat: "stdout_of (concat trs) = concat (map stdout_of trs)"
  by (induction trs) simp_all

lemma files_of_concat: "files_of (concat trs) = concat (map files_of trs)"
  by (induction trs) simp_all

lemma posts_of_concat: "posts_of (concat trs) = concat (map posts_of trs)"
  by (induction trs) simp_all

lemma concat_map_Nil: "concat (map (\<lambda>x. []) xs) = []"
  by (induction xs) simp_all

lemma concat_map_single: "concat (map (\<lambda>x. [f x]) xs) = map f xs"
  by (induction xs) simp_all

lemma map_nth_pred: "map (\<lambda>i. f (xs ! (i - 1))) [1..<Suc (length xs)] = map f xs"
proof -
  have "[1..<Suc (length xs)] = map Suc [0..<length xs]"
    by (simp add: map_Suc_upt)
  then have "map (\<lambda>i. f (xs ! (i - 1))) [1..<Suc (length xs)] = map (\<lambda>j. f (xs ! j)) [0..<length xs]"
    by (simp add: comp_def)
  also have "\<dots> = map f (map (\<lambda>j. xs ! j) [0..<length xs])"
    by (simp add: comp_def)
  also have "\<dots> = map f xs"
    by (simp add: map_nth)
  finally show ?thesis .
qed

subsection \<open>The inference client\<close>

lemma ocr_failed:
  "try_request env c u (make_payload m b) = Inl e \<Longrightarrow>
   ocr_image_with_ollama env c b m u =
     (PyNone, [Post u (make_payload m b) json_headers, Stderr (''Error calling Ollama API: '' @ e)])"
  by (simp add: ocr_image_with_ollama_def)

lemma ocr_returned:
  "try_request env c u (make_payload m b) = Inr v \<Longrightarrow>
   ocr_image_with_ollama env c b m u = (v, [Post u (make_payload m b) json_headers])"
  by (simp add: ocr_image_with_ollama_def)



lemma try_request_dict:
  "requests_post env c u p json_headers = Inr resp \<Longrightarrow> raise_for_status resp = None \<Longrightarrow>
   json resp = Inr (PyDict d) \<Longrightarrow>
   try_request env c u p = Inr (dict_get d ''response'' (PyStr ''''))"
  by (simp add: try_request_def)

lemma ocr_observed:
  "n_posts (snd (ocr_image_with_ollama env c b m u)) = 1"
  "posts_of (snd (ocr_image_with_ollama env c b m u)) = [(u, make_payload m b, json_headers)]"
  "stdout_of (snd (ocr_image_with_ollama env c b m u)) = []"
  "files_of (snd (ocr_image_with_ollama env c b m u)) = []"
  by (simp_all add: ocr_image_with_ollama_def Let_def split: sum.split)

lemma page_events_observed:
  "posts_of (page_events env a images i) = [(server a, page_request env a images i, json_headers)]"
  "stdout_of (page_events env a images i) = []"
  "files_of (page_events env a images i) = []"
  by (simp_all add: page_events_def page_request_def ocr_observed)

subsection \<open>The loop and the whole run\<close>

lemma process_pages_from:
  "k \<le> length images \<Longrightarrow> n_posts tr = k \<Longrightarrow>
   process_pages env a (length images) (zip [Suc k..<Suc (length images)] (drop k images)) (acc, tr) =
     (acc @ map (\<lambda>i. page_block i (page_text env a images i))
              (filter (\<lambda>i. truthy (page_text env a images i)) [Suc k..<Suc (length images)]),
      tr @ concat (map (page_events env a images) [Suc k..<Suc (length images)]))"
proof (induction "length images - k" arbitrary: k acc tr)
  case 0
  then show ?case by simp
next
  case (Suc d)
  let ?progress = "Stderr (''Processing page '' @ str_nat (Suc k) @ ''/'' @ str_nat (length images) @ ''...'')"
  let ?warning = "Stderr (''Warning: No text extracted from page '' @ str_nat (Suc k))"
  let ?later = "[Suc (Suc k)..<Suc (length images)]"
  from Suc have lt: "k < length images" and d: "d = length images - Suc k" by simp_all
  have up: "[Suc k..<Suc (length images)] = Suc k # ?later"
    using lt by (simp add: upt_conv_Cons)
  have dr: "drop k images = images ! k # drop (Suc k) images"
    using lt by (simp add: Cons_nth_drop_Suc)
  obtain v evs where oc:
    "ocr_image_with_ollama env k (image_to_base64 env (images ! k)) (model a) (server a) = (v, evs)"
    by (cases "ocr_image_with_ollama env k (image_to_base64 env (images ! k)) (model a) (server a)")
  have np: "n_posts evs = 1"
    using ocr_observed(1) [of env k "image_to_base64 env (images ! k)" "model a" "server a"] oc by simp
  have pt: "page_text env a images (Suc k) = v"
    by (simp add: page_text_def oc)
  have pe: "page_events env a images (Suc k) = ?progress # evs @ (if truthy v then [] else [?warning])"
    by (simp add: page_events_def oc pt)
  show ?case
  proof (cases "truthy v")
    case True
    have "process_pages env a (length images) (zip [Suc k..<Suc (length images)] (drop k images)) (acc, tr)
        = process_pages env a (length images) (zip ?later (drop (Suc k) images))
            (acc @ [page_block (Suc k) v], (tr @ [?progress]) @ evs)"
      unfolding up dr using True Suc.prems(2) oc by simp
    also have "\<dots> = ((acc @ [page_block (Suc k) v])
          @ map (\<lambda>i. page_block i (page_text env a images i))
              (filter (\<lambda>i. truthy (page_text env a images i)) ?later),
        ((tr @ [?progress]) @ evs) @ concat (map (page_events env a images) ?later))"
      using lt d Suc.prems(2) np by (intro Suc.hyps(1)) simp_all
    finally show ?thesis unfolding up using True pt pe by simp
  next
    case False
    have "process_pages env a (length images) (zip [Suc k..<Suc (length images)] (drop k images)) (acc, tr)
        = process_pages env a (length images) (zip ?later (drop (Suc k) images))
            (acc, ((tr @ [?progress]) @ evs) @ [?warning])"
      unfolding up dr using False Suc.prems(2) oc by simp
    also have "\<dots> = (acc @ map (\<lambda>i. page_block i (page_text env a images i))
              (filter (\<lambda>i. truthy (page_text env a images i)) ?later),
        (((tr @ [?progress]) @ evs) @ [?warning]) @ concat (map (page_events env a images) ?later))"
      using lt d Suc.prems(2) np by (intro Suc.hyps(1)) simp_all
    finally show ?thesis unfolding up using False pt pe by simp
  qed
qed

lemma ocr_pages_eq:
  assumes "n_posts tr = 0"
  shows "ocr_pages env a images tr =
     (join nl (map (\<lambda>i. page_block i (page_text env a images i))
                 (filter (\<lambda>i. truthy (page_text env a images i)) [1..<Suc (length images)])),
      tr @ Stderr (''Processing '' @ str_nat (length images) @ '' page(s)...'')
         # concat (map (page_events env a images) [1..<Suc (length images)]))"
  using process_pages_from [of 0 images
      "tr @ [Stderr (''Processing '' @ str_nat (length images) @ '' page(s)...'')]" env a "[]"] assms
  by (simp add: ocr_pages_def enumerate1_def)

lemma run_output_eq:
  "run_output env a images =
     join nl (map (\<lambda>i. page_block i (page_text env a images i))
                (filter (\<lambda>i. truthy (page_text env a images i)) [1..<Suc (length images)]))"
  by (simp add: run_output_def ocr_pages_eq)

lemma main_rendered:
  assumes "path_exists env (path_str env (pdf_file a))"
    and "convert_from_path env (path_str env (pdf_file a)) = Inr images"
  shows "main env a =
     (0, [Stderr ''Converting PDF to images...'', ConvertFromPath (path_str env (pdf_file a)),
          Stderr (''Processing '' @ str_nat (length images) @ '' page(s)...'')]
         @ concat (map (page_events env a images) [1..<Suc (length images)])
         @ emit a (run_output env a images))"
  using assms
    ocr_pages_eq [of "[Stderr ''Converting PDF to images...'', ConvertFromPath (path_str env (pdf_file a))]" env a images]
  by (simp add: main_def convert_pdf_to_images_def Let_def run_output_def)

subsection \<open>Base64\<close>

lemma b64_alphabet_facts:
  "length b64_alphabet = 64" "distinct b64_alphabet" "CHR ''='' \<notin> set b64_alphabet"
  unfolding b64_alphabet_def by simp_all

lemma b64_index_char: "b64_index (b64_char n) = Some (n mod 64)"
proof -
  have "map_of (zip b64_alphabet [0..<64]) (b64_alphabet ! (n mod 64)) = Some ([0..<64] ! (n mod 64))"
    by (rule map_of_zip_nth) (simp_all add: b64_alphabet_facts)
  then show ?thesis by (simp add: b64_index_def b64_char_def)
qed

lemma b64_char_not_pad: "b64_char n \<noteq> CHR ''=''"
proof -
  have "b64_alphabet ! (n mod 64) \<in> set b64_alphabet"
    by (rule nth_mem) (simp add: b64_alphabet_facts)
  then show ?thesis using b64_alphabet_facts(3) by (auto simp: b64_char_def)
qed

lemma unat_byte_lt: "unat (x :: byte) < 256"
  using unsigned_less [of x, where ?'a = nat] by simp

lemma byte_of_unat: "of_nat (unat a) = (a :: byte)"
  by simp

lemma div_mod_pack:
  fixes x y n :: nat
  assumes "y < n"
  shows "(x * n + y) div n = x" and "(x * n + y) mod n = y"
  using assms by simp_all

text \<open>
  The arithmetic of one group: the four six-bit indices stay below 64, and the three
  bytes are recovered from them.
\<close>

lemma sextet_arith:
  fixes a b c :: nat
  assumes "a < 256" "b < 256" "c < 256"
  shows "(a div 4) mod 64 = a div 4"
    and "(a mod 4 * 16) mod 64 = a mod 4 * 16"
    and "(a mod 4 * 16 + b div 16) mod 64 = a mod 4 * 16 + b div 16"
    and "(b mod 16 * 4) mod 64 = b mod 16 * 4"
    and "(b mod 16 * 4 + c div 64) mod 64 = b mod 16 * 4 + c div 64"
    and "a div 4 * 4 + (a mod 4 * 16) div 16 = a"
    and "a div 4 * 4 + (a mod 4 * 16 + b div 16) div 16 = a"
    and "(a mod 4 * 16 + b div 16) mod 16 * 16 + (b mod 16 * 4) div 4 = b"
    and "(a mod 4 * 16 + b div 16) mod 16 * 16 + (b mod 16 * 4 + c div 64) div 4 = b"
    and "(b mod 16 * 4 + c div 64) mod 4 * 64 + c mod 64 = c"
proof -
  define p q r s where "p = a mod 4" and "q = b div 16" and "r = b mod 16" and "s = c div 64"
  have p: "p < 4" and r: "r < 16" by (simp_all add: p_def r_def)
  have q: "q < 16" unfolding q_def using assms(2) by (simp add: less_mult_imp_div_less)
  have s: "s < 4" unfolding s_def using assms(3) by (simp add: less_mult_imp_div_less)
  have a4: "a div 4 < 64" using assms(1) by (simp add: less_mult_imp_div_less)
  have a: "a div 4 * 4 + p = a" and b: "q * 16 + r = b" and c: "s * 64 + c mod 64 = c"
    by (simp_all add: p_def q_def r_def s_def)
  show "(a div 4) mod 64 = a div 4" using a4 by simp
  have "p * 16 < 64" using p by simp
  then show "(a mod 4 * 16) mod 64 = a mod 4 * 16" unfolding p_def by simp
  have "p * 16 + q < 64" using p q by simp
  then show "(a mod 4 * 16 + b div 16) mod 64 = a mod 4 * 16 + b div 16"
    unfolding p_def q_def by simp
  have "r * 4 < 64" using r by simp
  then show "(b mod 16 * 4) mod 64 = b mod 16 * 4" unfolding r_def by simp
  have "r * 4 + s < 64" using r s by simp
  then show "(b mod 16 * 4 + c div 64) mod 64 = b mod 16 * 4 + c div 64"
    unfolding r_def s_def by simp
  show "a div 4 * 4 + (a mod 4 * 16) div 16 = a" by simp
  have "(p * 16 + q) div 16 = p" using q by (rule div_mod_pack(1))
  then show "a div 4 * 4 + (a mod 4 * 16 + b div 16) div 16 = a"
    using a unfolding p_def q_def by simp
  have pq: "(p * 16 + q) mod 16 = q" using q by (rule div_mod_pack(2))
  have "(r * 4) div 4 = r" by simp
  with pq b show "(a mod 4 * 16 + b div 16) mod 16 * 16 + (b mod 16 * 4) div 4 = b"
    unfolding p_def q_def r_def by simp
  have "(r * 4 + s) div 4 = r" using s by (rule div_mod_pack(1))
  with pq b show "(a mod 4 * 16 + b div 16) mod 16 * 16 + (b mod 16 * 4 + c div 64) div 4 = b"
    unfolding p_def q_def r_def s_def by simp
  have "(r * 4 + s) mod 4 = s" using s by (rule div_mod_pack(2))
  with c show "(b mod 16 * 4 + c div 64) mod 4 * 64 + c mod 64 = c"
    unfolding r_def s_def by simp
qed

lemma b64_group:
  fixes a b c :: byte
  shows "b64_index (b64_char (unat a div 4)) = Some (unat a div 4)"
    and "b64_index (b64_char (unat a mod 4 * 16)) = Some (unat a mod 4 * 16)"
    and "b64_index (b64_char (unat a mod 4 * 16 + unat b div 16)) = Some (unat a mod 4 * 16 + unat b div 16)"
    and "b64_index (b64_char (unat b mod 16 * 4)) = Some (unat b mod 16 * 4)"
    and "b64_index (b64_char (unat b mod 16 * 4 + unat c div 64)) = Some (unat b mod 16 * 4 + unat c div 64)"
    and "b64_index (b64_char (unat c mod 64)) = Some (unat c mod 64)"
    and "of_nat (unat a div 4 * 4 + (unat a mod 4 * 16) div 16) = a"
    and "of_nat (unat a div 4 * 4 + (unat a mod 4 * 16 + unat b div 16) div 16) = a"
    and "of_nat ((unat a mod 4 * 16 + unat b div 16) mod 16 * 16 + (unat b mod 16 * 4) div 4) = b"
    and "of_nat ((unat a mod 4 * 16 + unat b div 16) mod 16 * 16 + (unat b mod 16 * 4 + unat c div 64) div 4) = b"
    and "of_nat ((unat b mod 16 * 4 + unat c div 64) mod 4 * 64 + unat c mod 64) = c"
proof -
  note ar = sextet_arith [OF unat_byte_lt [of a] unat_byte_lt [of b] unat_byte_lt [of c]]
  show "b64_index (b64_char (unat a div 4)) = Some (unat a div 4)"
    and "b64_index (b64_char (unat a mod 4 * 16)) = Some (unat a mod 4 * 16)"
    and "b64_index (b64_char (unat a mod 4 * 16 + unat b div 16)) = Some (unat a mod 4 * 16 + unat b div 16)"
    and "b64_index (b64_char (unat b mod 16 * 4)) = Some (unat b mod 16 * 4)"
    and "b64_index (b64_char (unat b mod 16 * 4 + unat c div 64)) = Some (unat b mod 16 * 4 + unat c div 64)"
    by (simp_all only: b64_index_char ar)
  show "b64_index (b64_char (unat c mod 64)) = Some (unat c mod 64)"
    by (simp only: b64_index_char mod_mod_trivial)
  show "of_nat (unat a div 4 * 4 + (unat a mod 4 * 16) div 16) = a"
    and "of_nat (unat a div 4 * 4 + (unat a mod 4 * 16 + unat b div 16) div 16) = a"
    and "of_nat ((unat a mod 4 * 16 + unat b div 16) mod 16 * 16 + (unat b mod 16 * 4) div 4) = b"
    and "of_nat ((unat a mod 4 * 16 + unat b div 16) mod 16 * 16 + (unat b mod 16 * 4 + unat c div 64) div 4) = b"
    and "of_nat ((unat b mod 16 * 4 + unat c div 64) mod 4 * 64 + unat c mod 64) = c"
    by (simp_all only: ar byte_of_unat)
qed

lemmas b64_step_simps =
  b64encode.simps b64decode.simps append_Cons append_Nil b64_group b64_char_not_pad
  prod.case option.case simp_thms if_True if_False list.simps

lemma b64decode_b64encode: "b64decode (b64encode bs) = Some bs"
proof (induction bs rule: b64encode.induct)
  case 1
  show ?case by simp
next
  case (2 a)
  show ?case by (simp only: b64_step_simps)
next
  case (3 a b)
  show ?case by (simp only: b64_step_simps)
next
  case (4 a b c rest)
  then show ?case by (simp only: b64_step_simps)
qed

subsection \<open>One page among the others\<close>

lemma upt_split_at:
  assumes "1 \<le> k" "k \<le> n"
  shows "[1..<Suc n] = [1..<k] @ k # [Suc k..<Suc n]"
proof -
  have "[1..<Suc n] = [1..<k] @ [k..<Suc n]"
    using assms upt_add_eq_append [of 1 k "Suc n - k"] by simp
  also have "[k..<Suc n] = k # [Suc k..<Suc n]"
    using assms by (simp add: upt_conv_Cons)
  finally show ?thesis .
qed

lemma main_split_at:
  assumes "path_exists env (path_str env (pdf_file a))"
    and "convert_from_path env (path_str env (pdf_file a)) = Inr images"
    and "1 \<le> k" "k \<le> length images"
  shows "snd (main env a) =
     ([Stderr ''Converting PDF to images...'', ConvertFromPath (path_str env (pdf_file a)),
       Stderr (''Processing '' @ str_nat (length images) @ '' page(s)...'')]
      @ concat (map (page_events env a images) [1..<k]))
     @ page_events env a images k
     @ concat (map (page_events env a images) [Suc k..<Suc (length images)])
     @ emit a (run_output env a images)"
  using main_rendered [OF assms(1,2)] upt_split_at [OF assms(3,4)] by simp

lemma main_posts:
  assumes "path_exists env (path_str env (pdf_file a))"
    and "convert_from_path env (path_str env (pdf_file a)) = Inr images"
  shows "posts_of (snd (main env a)) =
     map (\<lambda>img. (server a, make_payload (model a) (image_to_base64 env img), json_headers)) images"
proof -
  have "posts_of (emit a r) = []" for r
    by (simp add: emit_def split: option.split)
  then have "posts_of (snd (main env a)) =
      map (\<lambda>i. (\<lambda>img. (server a, make_payload (model a) (image_to_base64 env img), json_headers))
                 (images ! (i - 1)))
        [1..<Suc (length images)]"
    using main_rendered [OF assms]
    by (simp add: posts_of_concat comp_def page_events_observed page_request_def concat_map_single
          del: upt_Suc)
  also have "\<dots> = map (\<lambda>img. (server a, make_payload (model a) (image_to_base64 env img), json_headers)) images"
    by (rule map_nth_pred)
  finally show ?thesis .
qed

lemma main_output_events:
  assumes "path_exists env (path_str env (pdf_file a))"
    and "convert_from_path env (path_str env (pdf_file a)) = Inr images"
  shows "stdout_of (snd (main env a)) = stdout_of (emit a (run_output env a images))"
    and "files_of (snd (main env a)) = files_of (emit a (run_output env a images))"
  using main_rendered [OF assms]
  by (simp_all add: stdout_of_concat files_of_concat comp_def page_events_observed concat_map_Nil
        del: upt_Suc)

lemma run_output_without:
  assumes "\<not> truthy (page_text env a images k)"
  shows "run_output env a images =
     join nl (map (\<lambda>i. page_block i (page_text env a images i))
                (filter (\<lambda>i. i \<noteq> k \<and> truthy (page_text env a images i)) [1..<Suc (length images)]))"
proof -
  have "filter (\<lambda>i. truthy (page_text env a images i)) [1..<Suc (length images)] =
        filter (\<lambda>i. i \<noteq> k \<and> truthy (page_text env a images i)) [1..<Suc (length images)]"
    using assms by (intro filter_cong) auto
  then show ?thesis by (simp only: run_output_eq)
qed

lemma kept_pages_sorted:
  "length (filter P [1..<Suc n]) \<le> n" "sorted_wrt (<) (filter P [1..<Suc n])"
proof -
  have "length (filter P [1..<Suc n]) \<le> length [1..<Suc n]"
    by (rule length_filter_le)
  then show "length (filter P [1..<Suc n]) \<le> n" by (simp del: upt_Suc)
  have "sorted_wrt (<) [1..<Suc n]"
    by (rule sorted_wrt_upt)
  then show "sorted_wrt (<) (filter P [1..<Suc n])"
    by (rule sorted_wrt_filter)
qed

subsection \<open>Two environments that differ in one answer\<close>

lemma other_answer_ocr:
  assumes "c \<noteq> c'"
  shows "ocr_image_with_ollama (env\<lparr>requests_post := (requests_post env)(c' := answer)\<rparr>) c b m u =
         ocr_image_with_ollama env c b m u"
  using assms by (simp add: ocr_image_with_ollama_def try_request_def)

lemma other_answer_page:
  assumes "1 \<le> i" "1 \<le> k" "i \<noteq> k"
  shows "page_text (env\<lparr>requests_post := (requests_post env)(k - 1 := answer)\<rparr>) a images i =
         page_text env a images i"
    and "page_events (env\<lparr>requests_post := (requests_post env)(k - 1 := answer)\<rparr>) a images i =
         page_events env a images i"
proof -
  have ne: "i - 1 \<noteq> k - 1" using assms by arith
  show pt: "page_text (env\<lparr>requests_post := (requests_post env)(k - 1 := answer)\<rparr>) a images i =
         page_text env a images i"
    unfolding page_text_def other_answer_ocr [OF ne] by (simp add: image_to_base64_def)
  show "page_events (env\<lparr>requests_post := (requests_post env)(k - 1 := answer)\<rparr>) a images i =
         page_events env a images i"
    unfolding page_events_def pt other_answer_ocr [OF ne] by (simp add: image_to_base64_def)
qed

lemma other_answer_events:
  assumes "1 \<le> k" "1 \<le> lo" "k < lo \<or> hi \<le> k"
  shows "map (page_events (env\<lparr>requests_post := (requests_post env)(k - 1 := answer)\<rparr>) a images) [lo..<hi] =
         map (page_events env a images) [lo..<hi]"
  using assms by (intro map_cong refl other_answer_page(2)) auto

lemma other_answer_output:
  assumes "1 \<le> k"
    and "\<not> truthy (page_text env a images k)"
    and "\<not> truthy (page_text (env\<lparr>requests_post := (requests_post env)(k - 1 := answer)\<rparr>) a images k)"
  shows "run_output (env\<lparr>requests_post := (requests_post env)(k - 1 := answer)\<rparr>) a images =
         run_output env a images"
proof -
  let ?env' = "env\<lparr>requests_post := (requests_post env)(k - 1 := answer)\<rparr>"
  have same: "page_text ?env' a images i = page_text env a images i"
    if "i \<in> set [1..<Suc (length images)]" "i \<noteq> k" for i
    using that assms(1) by (intro other_answer_page(1)) auto
  have f: "filter (\<lambda>i. i \<noteq> k \<and> truthy (page_text ?env' a images i)) [1..<Suc (length images)] =
        filter (\<lambda>i. i \<noteq> k \<and> truthy (page_text env a images i)) [1..<Suc (length images)]"
    using same by (intro filter_cong refl) auto
  have m: "map (\<lambda>i. page_block i (page_text ?env' a images i))
          (filter (\<lambda>i. i \<noteq> k \<and> truthy (page_text env a images i)) [1..<Suc (length images)]) =
        map (\<lambda>i. page_block i (page_text env a images i))
          (filter (\<lambda>i. i \<noteq> k \<and> truthy (page_text env a images i)) [1..<Suc (length images)])"
    using same by (intro map_cong refl) auto
  show ?thesis
    unfolding run_output_without [OF assms(2)] run_output_without [OF assms(3)] f m ..
qed

subsection \<open>The output option\<close>

lemma run_output_ignores_output_opt:
  "run_output env (a\<lparr>output_opt := out\<rparr>) images = run_output env a images"
  unfolding run_output_eq by (simp add: page_text_def del: upt_Suc)

section \<open>The claims\<close>

subsection \<open>The inference client\<close>

text \<open>
  Claim C4. When \<^verbatim>\<open>requests.post\<close> returns a response, \<^verbatim>\<open>raise_for_status\<close> does not
  raise and the body parses as a JSON object \<open>d\<close>, the inference client returns the value
  that \<open>d\<close> has under the key \<^verbatim>\<open>response\<close>, and the empty string when \<open>d\<close> has no such key.
\<close>

theorem client_returns_response_field:
  assumes "requests_post env c server_url (make_payload mdl base64_image) json_headers = Inr resp"
    and "raise_for_status resp = None"
    and "json resp = Inr (PyDict d)"
  shows "fst (ocr_image_with_ollama env c base64_image mdl server_url) =
           (case d ''response'' of Some v \<Rightarrow> v | None \<Rightarrow> PyStr '''')"
  using try_request_dict [OF assms] by (simp add: ocr_returned dict_get_def)

theorem client_returns_response_field_witness:
  "requests_post (sample_env 2 hello_then_empty) 0 ''http://h/api'' (make_payload ''gemma3:27b'' ''iVBO'') json_headers
     = Inr (ok_response [''response'' \<mapsto> PyStr ''Hello''])
   \<and> raise_for_status (ok_response [''response'' \<mapsto> PyStr ''Hello'']) = None
   \<and> json (ok_response [''response'' \<mapsto> PyStr ''Hello'']) = Inr (PyDict [''response'' \<mapsto> PyStr ''Hello''])
   \<and> fst (ocr_image_with_ollama (sample_env 2 hello_then_empty) 0 ''iVBO'' ''gemma3:27b'' ''http://h/api'')
       = PyStr ''Hello''
   \<and> requests_post (sample_env 2 second_omits_field) 1 ''http://h/api'' (make_payload ''gemma3:27b'' ''iVBO'') json_headers
     = Inr (ok_response [''done'' \<mapsto> PyOther True ''True''])
   \<and> fst (ocr_image_with_ollama (sample_env 2 second_omits_field) 1 ''iVBO'' ''gemma3:27b'' ''http://h/api'')
       = PyStr ''''"
proof -
  have p1: "requests_post (sample_env 2 hello_then_empty) 0 ''http://h/api'' (make_payload ''gemma3:27b'' ''iVBO'') json_headers
     = Inr (ok_response [''response'' \<mapsto> PyStr ''Hello''])"
    by (simp add: sample_env_def hello_then_empty_def)
  have p2: "raise_for_status (ok_response d) = None" and p3: "json (ok_response d) = Inr (PyDict d)" for d
    by (simp_all add: ok_response_def raise_for_status_def)
  have q1: "requests_post (sample_env 2 second_omits_field) 1 ''http://h/api'' (make_payload ''gemma3:27b'' ''iVBO'') json_headers
     = Inr (ok_response [''done'' \<mapsto> PyOther True ''True''])"
    by (simp add: sample_env_def second_omits_field_def)
  show ?thesis
    using p1 p2 p3 q1 client_returns_response_field [OF p1 p2 p3]
      client_returns_response_field [OF q1 p2 p3]
    by simp
qed

text \<open>
  Claim C5. Every invocation of the inference client issues exactly one POST request, to
  the given URL; its body is the JSON object with the four keys \<^verbatim>\<open>model\<close> (the model the
  client was called with), \<^verbatim>\<open>prompt\<close> (the fixed instruction), \<^verbatim>\<open>stream\<close> (false) and
  \<^verbatim>\<open>images\<close> (the list of the one encoded image), and its header is
  \<^verbatim>\<open>Content-Type: application/json\<close>. This holds whatever the environment answers. In a
  run whose rendering succeeded, the requests sent are these, one per page in page order,
  with the model and the URL of the command line.
\<close>

theorem request_body_of_client:
  "posts_of (snd (ocr_image_with_ollama env c base64_image mdl server_url)) =
     [(server_url,
       [(''model'', JStr mdl),
        (''prompt'', JStr ''Extract and return all text from this image. Provide only the text content without any additional commentary.''),
        (''stream'', JBool False),
        (''images'', JList [JStr base64_image])],
       [(''Content-Type'', ''application/json'')])]
   \<and> (path_exists env (path_str env (pdf_file a)) \<longrightarrow>
      convert_from_path env (path_str env (pdf_file a)) = Inr images \<longrightarrow>
      posts_of (snd (main env a)) =
        map (\<lambda>img.
               (server a,
                [(''model'', JStr (model a)),
                 (''prompt'', JStr ''Extract and return all text from this image. Provide only the text content without any additional commentary.''),
                 (''stream'', JBool False),
                 (''images'', JList [JStr (image_to_base64 env img)])],
                [(''Content-Type'', ''application/json'')]))
          images)"
  using main_posts [of env a images]
  by (simp add: ocr_observed make_payload_def prompt_text_def json_headers_def)

theorem request_body_of_client_witness:
  "path_exists (sample_env 2 second_refused)
     (path_str (sample_env 2 second_refused) (pdf_file (sample_args ''scan.pdf'' None)))
   \<and> convert_from_path (sample_env 2 second_refused)
       (path_str (sample_env 2 second_refused) (pdf_file (sample_args ''scan.pdf'' None))) = Inr [0, 1]
   \<and> posts_of (snd (main (sample_env 2 second_refused) (sample_args ''scan.pdf'' None))) =
       [(''http://10.147.17.205:11434/api/generate'',
         [(''model'', JStr ''gemma3:27b''),
          (''prompt'', JStr ''Extract and return all text from this image. Provide only the text content without any additional commentary.''),
          (''stream'', JBool False),
          (''images'', JList [JStr ''iVBORwA=''])],
         [(''Content-Type'', ''application/json'')]),
        (''http://10.147.17.205:11434/api/generate'',
         [(''model'', JStr ''gemma3:27b''),
          (''prompt'', JStr ''Extract and return all text from this image. Provide only the text content without any additional commentary.''),
          (''stream'', JBool False),
          (''images'', JList [JStr ''iVBORwE=''])],
         [(''Content-Type'', ''application/json'')])]"
proof -
  let ?env = "sample_env 2 second_refused" and ?a = "sample_args ''scan.pdf'' None"
  have ex: "path_exists ?env (path_str ?env (pdf_file ?a))"
    by (simp add: sample_env_def sample_args_def)
  have cv: "convert_from_path ?env (path_str ?env (pdf_file ?a)) = Inr [0, 1]"
    by (simp add: sample_env_def sample_args_def upt_conv_Cons)
  have e: "image_to_base64 ?env 0 = ''iVBORwA=''" "image_to_base64 ?env 1 = ''iVBORwE=''"
    by (simp_all add: image_to_base64_def sample_env_def b64_char_def b64_alphabet_def)
  have m: "model ?a = ''gemma3:27b''" "server ?a = ''http://10.147.17.205:11434/api/generate''"
    by (simp_all add: sample_args_def)
  show ?thesis
    using request_body_of_client [of ?env 0 "[]" "[]" "[]" ?a "[0, 1]"] ex cv e m
    by simp
qed

subsection \<open>The image encoder\<close>

text \<open>
  Claim C9. Decoding the base64 text that the encoder returns for an image gives back
  exactly the PNG bytes of that image; and the encoder is a function of those bytes alone:
  two images are encoded to the same text exactly when their PNG bytes are the same. The
  PNG serialisation itself is a function of the environment.
\<close>

theorem image_encoding_round_trip:
  "b64decode (image_to_base64 env img) = Some (png_bytes env img)
   \<and> ((image_to_base64 env img = image_to_base64 env' img') = (png_bytes env img = png_bytes env' img'))"
proof -
  have rt: "b64decode (image_to_base64 e i) = Some (png_bytes e i)" for e :: "'x env" and i
    by (simp add: image_to_base64_def b64decode_b64encode)
  have "png_bytes env img = png_bytes env' img'"
    if "image_to_base64 env img = image_to_base64 env' img'"
    using rt [of env img] rt [of env' img'] that by simp
  moreover have "image_to_base64 env img = image_to_base64 env' img'"
    if "png_bytes env img = png_bytes env' img'"
    using that by (simp add: image_to_base64_def)
  ultimately show ?thesis using rt [of env img] by blast
qed

theorem image_encoding_round_trip_witness:
  "image_to_base64 (sample_env 2 hello_then_empty) 1 = ''iVBORwE=''
   \<and> b64decode ''iVBORwE='' = Some [137, 80, 78, 71, 1]
   \<and> png_bytes (sample_env 2 hello_then_empty) 1 = [137, 80, 78, 71, 1]"
proof -
  have e: "image_to_base64 (sample_env 2 hello_then_empty) 1 = ''iVBORwE=''"
    by (simp add: image_to_base64_def sample_env_def b64_char_def b64_alphabet_def)
  have p: "png_bytes (sample_env 2 hello_then_empty) 1 = [137, 80, 78, 71, 1]"
    by (simp add: sample_env_def)
  show ?thesis
    using image_encoding_round_trip [of "sample_env 2 hello_then_empty" 1 "sample_env 2 hello_then_empty" 1] e p
    by simp
qed

subsection \<open>The pipeline driver\<close>

text \<open>
  Claim C6. When the input path does not exist, the whole run consists of one error line
  on the diagnostic stream and the exit status 1: the renderer is not called, no request
  is sent, nothing is written to standard output or to a file.
\<close>

theorem missing_input_is_fatal:
  assumes "\<not> path_exists env (path_str env (pdf_file a))"
  shows "main env a =
           (1, [Stderr (''Error: File '' @ [CHR 0x27] @ path_str env (pdf_file a) @ [CHR 0x27] @ '' not found'')])
         \<and> fst (main env a) \<noteq> 0
         \<and> renders_of (snd (main env a)) = []
         \<and> posts_of (snd (main env a)) = []
         \<and> stdout_of (snd (main env a)) = []
         \<and> files_of (snd (main env a)) = []"
  using assms by (simp add: main_def)

theorem missing_input_is_fatal_witness:
  "\<not> path_exists (sample_env 2 hello_then_empty)
        (path_str (sample_env 2 hello_then_empty) (pdf_file (sample_args ''absent.pdf'' (Some ''out.txt''))))
   \<and> main (sample_env 2 hello_then_empty) (sample_args ''absent.pdf'' (Some ''out.txt''))
       = (1, [Stderr (''Error: File '' @ [CHR 0x27] @ ''absent.pdf'' @ [CHR 0x27] @ '' not found'')])"
proof -
  have h: "\<not> path_exists (sample_env 2 hello_then_empty)
        (path_str (sample_env 2 hello_then_empty) (pdf_file (sample_args ''absent.pdf'' (Some ''out.txt''))))"
    by (simp add: sample_env_def sample_args_def)
  show ?thesis
    using h missing_input_is_fatal [OF h] by (simp add: sample_env_def sample_args_def)
qed

text \<open>
  Claim C2. A two-page PDF whose first request is answered by a JSON object with
  \<^verbatim>\<open>"response": "Hello"\<close> and whose second by one with \<^verbatim>\<open>"response": ""\<close>: the final
  output is exactly \<^verbatim>\<open>"--- Page 1 ---\nHello\n"\<close>, with no block for page 2. The whole
  run is the events below, ended by the emission of that string, with exit status 0.
\<close>

theorem two_page_scenario:
  assumes "path_exists env (path_str env (pdf_file a))"
    and "convert_from_path env (path_str env (pdf_file a)) = Inr [p1, p2]"
    and "requests_post env 0 (server a) (make_payload (model a) (image_to_base64 env p1)) json_headers = Inr r1"
    and "raise_for_status r1 = None" and "json r1 = Inr (PyDict d1)"
    and "d1 ''response'' = Some (PyStr ''Hello'')"
    and "requests_post env 1 (server a) (make_payload (model a) (image_to_base64 env p2)) json_headers = Inr r2"
    and "raise_for_status r2 = None" and "json r2 = Inr (PyDict d2)"
    and "d2 ''response'' = Some (PyStr '''')"
  shows "run_output env a [p1, p2] = ''--- Page 1 ---\<newline>Hello\<newline>''
     \<and> main env a =
        (0, [Stderr ''Converting PDF to images...'',
             ConvertFromPath (path_str env (pdf_file a)),
             Stderr ''Processing 2 page(s)...'',
             Stderr ''Processing page 1/2...'',
             Post (server a) (make_payload (model a) (image_to_base64 env p1)) json_headers,
             Stderr ''Processing page 2/2...'',
             Post (server a) (make_payload (model a) (image_to_base64 env p2)) json_headers,
             Stderr ''Warning: No text extracted from page 2'']
            @ emit a ''--- Page 1 ---\<newline>Hello\<newline>'')"
proof -
  have t1: "try_request env 0 (server a) (make_payload (model a) (image_to_base64 env p1)) = Inr (PyStr ''Hello'')"
    using try_request_dict [OF assms(3,4,5)] assms(6) by (simp add: dict_get_def)
  have t2: "try_request env 1 (server a) (make_payload (model a) (image_to_base64 env p2)) = Inr (PyStr '''')"
    using try_request_dict [OF assms(7,8,9)] assms(10) by (simp add: dict_get_def)
  note o1 = ocr_returned [OF t1] and o2 = ocr_returned [OF t2]
  have pt: "page_text env a [p1, p2] 1 = PyStr ''Hello''" "page_text env a [p1, p2] 2 = PyStr ''''"
    using o1 o2 by (simp_all add: page_text_def)
  have pe: "page_events env a [p1, p2] 1 =
        [Stderr ''Processing page 1/2...'',
         Post (server a) (make_payload (model a) (image_to_base64 env p1)) json_headers]"
      "page_events env a [p1, p2] 2 =
        [Stderr ''Processing page 2/2...'',
         Post (server a) (make_payload (model a) (image_to_base64 env p2)) json_headers,
         Stderr ''Warning: No text extracted from page 2'']"
    using o1 o2 pt by (simp_all add: page_events_def str_nat.simps digit_def)
  have up: "[1..<Suc (length [p1, p2])] = [1, 2]"
    by (simp add: upt_conv_Cons)
  have out: "run_output env a [p1, p2] = ''--- Page 1 ---\<newline>Hello\<newline>''"
    unfolding run_output_eq up using pt
    by (simp add: page_block_def nl_def str_nat.simps digit_def)
  show ?thesis
    using main_rendered [OF assms(1,2)] pe out unfolding up
    by (simp add: str_nat.simps digit_def)
qed

theorem two_page_scenario_witness:
  "path_exists (sample_env 2 hello_then_empty)
     (path_str (sample_env 2 hello_then_empty) (pdf_file (sample_args ''scan.pdf'' None)))
   \<and> convert_from_path (sample_env 2 hello_then_empty)
       (path_str (sample_env 2 hello_then_empty) (pdf_file (sample_args ''scan.pdf'' None))) = Inr [0, 1]
   \<and> run_output (sample_env 2 hello_then_empty) (sample_args ''scan.pdf'' None) [0, 1]
       = ''--- Page 1 ---\<newline>Hello\<newline>''
   \<and> stdout_of (snd (main (sample_env 2 hello_then_empty) (sample_args ''scan.pdf'' None)))
       = ''--- Page 1 ---\<newline>Hello\<newline>\<newline>''
   \<and> files_of (snd (main (sample_env 2 hello_then_empty) (sample_args ''scan.pdf'' (Some ''out.txt''))))
       = [(''out.txt'', ''--- Page 1 ---\<newline>Hello\<newline>'')]"
proof -
  let ?env = "sample_env 2 hello_then_empty"
  have ex: "path_exists ?env (path_str ?env (pdf_file (sample_args ''scan.pdf'' out)))" for out
    by (simp add: sample_env_def sample_args_def)
  have cv: "convert_from_path ?env (path_str ?env (pdf_file (sample_args ''scan.pdf'' out))) = Inr [0, 1]" for out
    by (simp add: sample_env_def sample_args_def upt_conv_Cons)
  have r1: "requests_post ?env 0 (server (sample_args ''scan.pdf'' out))
              (make_payload (model (sample_args ''scan.pdf'' out)) (image_to_base64 ?env 0)) json_headers
            = Inr (ok_response [''response'' \<mapsto> PyStr ''Hello''])" for out
    by (simp add: sample_env_def hello_then_empty_def)
  have r2: "requests_post ?env 1 (server (sample_args ''scan.pdf'' out))
              (make_payload (model (sample_args ''scan.pdf'' out)) (image_to_base64 ?env 1)) json_headers
            = Inr (ok_response [''response'' \<mapsto> PyStr ''''])" for out
    by (simp add: sample_env_def hello_then_empty_def)
  have ok: "raise_for_status (ok_response d) = None" "json (ok_response d) = Inr (PyDict d)" for d
    by (simp_all add: ok_response_def raise_for_status_def)
  have d1: "[''response'' \<mapsto> PyStr ''Hello''] ''response'' = Some (PyStr ''Hello'')"
    and d2: "[''response'' \<mapsto> PyStr ''''] ''response'' = Some (PyStr '''')"
    by simp_all
  note run = two_page_scenario [OF ex cv r1 ok d1 r2 ok d2]
  show ?thesis
    using ex [of None] cv [of None] run [of None] run [of "Some ''out.txt''"]
    by (simp add: emit_def sample_args_def nl_def)
qed

text \<open>
  Claim C8. For every list of rendered pages and every behaviour of the inference server,
  the final output is the blocks of the pages whose inference result is non-empty (true
  in the sense of \<^verbatim>\<open>if text:\<close>; for a string, not the empty string), joined by a newline;
  the block of page \<open>i\<close>, counted from 1, is \<^verbatim>\<open>"--- Page {i} ---\n{text}\n"\<close>. Since every
  block ends with a newline, the joining newline leaves one blank line between two blocks.
  There are at most as many blocks as pages, and their page numbers increase. A run whose
  rendering succeeded exits with status 0 and writes nothing to standard output or to a
  file but the emission of this final output.
\<close>

theorem output_is_labelled_blocks:
  "run_output env a images =
     join ''\<newline>''
       (map (\<lambda>i. ''--- Page '' @ str_nat i @ '' ---\<newline>'' @ py_format (page_text env a images i) @ ''\<newline>'')
          (filter (\<lambda>i. truthy (page_text env a images i)) [1..<Suc (length images)]))
   \<and> length (filter (\<lambda>i. truthy (page_text env a images i)) [1..<Suc (length images)]) \<le> length images
   \<and> sorted_wrt (<) (filter (\<lambda>i. truthy (page_text env a images i)) [1..<Suc (length images)])
   \<and> (path_exists env (path_str env (pdf_file a)) \<longrightarrow>
      convert_from_path env (path_str env (pdf_file a)) = Inr images \<longrightarrow>
        fst (main env a) = 0
        \<and> stdout_of (snd (main env a)) = stdout_of (emit a (run_output env a images))
        \<and> files_of (snd (main env a)) = files_of (emit a (run_output env a images)))"
proof -
  have "run_output env a images =
     join ''\<newline>''
       (map (\<lambda>i. ''--- Page '' @ str_nat i @ '' ---\<newline>'' @ py_format (page_text env a images i) @ ''\<newline>'')
          (filter (\<lambda>i. truthy (page_text env a images i)) [1..<Suc (length images)]))"
    unfolding run_output_eq by (simp add: page_block_def nl_def del: upt_Suc)
  moreover have "fst (main env a) = 0"
    if "path_exists env (path_str env (pdf_file a))"
      and "convert_from_path env (path_str env (pdf_file a)) = Inr images"
    using main_rendered [OF that] by simp
  ultimately show ?thesis
    using kept_pages_sorted [of "\<lambda>i. truthy (page_text env a images i)" "length images"]
      main_output_events [of env a images]
    by blast
qed

theorem output_is_labelled_blocks_witness:
  "path_exists (sample_env 3 second_empty)
     (path_str (sample_env 3 second_empty) (pdf_file (sample_args ''scan.pdf'' None)))
   \<and> convert_from_path (sample_env 3 second_empty)
       (path_str (sample_env 3 second_empty) (pdf_file (sample_args ''scan.pdf'' None))) = Inr [0, 1, 2]
   \<and> filter (\<lambda>i. truthy (page_text (sample_env 3 second_empty) (sample_args ''scan.pdf'' None) [0, 1, 2] i))
        [1..<Suc (length [0, 1, 2 :: nat])] = [1, 3]
   \<and> run_output (sample_env 3 second_empty) (sample_args ''scan.pdf'' None) [0, 1, 2]
       = ''--- Page 1 ---\<newline>text\<newline>\<newline>--- Page 3 ---\<newline>text\<newline>''
   \<and> fst (main (sample_env 3 second_empty) (sample_args ''scan.pdf'' None)) = 0
   \<and> stdout_of (snd (main (sample_env 3 second_empty) (sample_args ''scan.pdf'' None)))
       = ''--- Page 1 ---\<newline>text\<newline>\<newline>--- Page 3 ---\<newline>text\<newline>\<newline>''
   \<and> files_of (snd (main (sample_env 3 second_empty) (sample_args ''scan.pdf'' None))) = []"
proof -
  let ?env = "sample_env 3 second_empty" and ?a = "sample_args ''scan.pdf'' None"
  have ex: "path_exists ?env (path_str ?env (pdf_file ?a))"
    by (simp add: sample_env_def sample_args_def)
  have cv: "convert_from_path ?env (path_str ?env (pdf_file ?a)) = Inr [0, 1, 2]"
    by (simp add: sample_env_def sample_args_def upt_conv_Cons)
  have pt: "page_text ?env ?a [0, 1, 2] 1 = PyStr ''text''"
      "page_text ?env ?a [0, 1, 2] 2 = PyStr ''''"
      "page_text ?env ?a [0, 1, 2] 3 = PyStr ''text''"
    by (simp_all add: page_text_def ocr_image_with_ollama_def try_request_def sample_env_def
          second_empty_def ok_response_def raise_for_status_def dict_get_def)
  have up: "[1..<Suc (length [0, 1, 2 :: nat])] = [1, 2, 3]"
    by (simp add: upt_conv_Cons)
  have kept: "filter (\<lambda>i. truthy (page_text ?env ?a [0, 1, 2] i)) [1..<Suc (length [0, 1, 2 :: nat])] = [1, 3]"
    unfolding up using pt by simp
  have em: "emit ?a r = [Stdout (r @ ''\<newline>'')]" for r
    by (simp add: emit_def sample_args_def nl_def)
  show ?thesis
    using output_is_labelled_blocks [of ?env ?a "[0, 1, 2]"] ex cv pt
    unfolding kept em
    by (simp add: str_nat.simps digit_def)
qed

text \<open>
  Claim C7. Let page \<open>k\<close> be answered with a success status and a JSON object in which
  \<^verbatim>\<open>response\<close> is the empty string or is missing. Then the inference result of page \<open>k\<close>
  is the empty string; the final output is made of the blocks of the other pages only;
  what the run does for page \<open>k\<close> is the progress line, the request and the warning
  \<^verbatim>\<open>Warning: No text extracted from page k\<close>, with no error line; and the run exits with
  status 0. Nothing is assumed about the other pages, so this holds however many of them
  yield empty or absent results.
\<close>

theorem empty_result_is_skipped:
  assumes "path_exists env (path_str env (pdf_file a))"
    and "convert_from_path env (path_str env (pdf_file a)) = Inr images"
    and "1 \<le> k" and "k \<le> length images"
    and "requests_post env (k - 1) (server a) (page_request env a images k) json_headers = Inr resp"
    and "raise_for_status resp = None" and "json resp = Inr (PyDict d)"
    and "d ''response'' = Some (PyStr '''') \<or> d ''response'' = None"
  shows "page_text env a images k = PyStr ''''
     \<and> run_output env a images =
         join nl (map (\<lambda>i. page_block i (page_text env a images i))
                    (filter (\<lambda>i. i \<noteq> k \<and> truthy (page_text env a images i)) [1..<Suc (length images)]))
     \<and> (\<exists>pre post. snd (main env a) =
           pre @ [Stderr (''Processing page '' @ str_nat k @ ''/'' @ str_nat (length images) @ ''...''),
                  Post (server a) (page_request env a images k) json_headers,
                  Stderr (''Warning: No text extracted from page '' @ str_nat k)] @ post)
     \<and> fst (main env a) = 0"
proof -
  have "dict_get d ''response'' (PyStr '''') = PyStr ''''"
    using assms(8) by (auto simp: dict_get_def)
  then have tr: "try_request env (k - 1) (server a)
        (make_payload (model a) (image_to_base64 env (images ! (k - 1)))) = Inr (PyStr '''')"
    using try_request_dict [OF assms(5) [unfolded page_request_def] assms(6,7)] by simp
  note oc = ocr_returned [OF tr]
  have pt: "page_text env a images k = PyStr ''''"
    using oc by (simp add: page_text_def)
  have pe: "page_events env a images k =
      [Stderr (''Processing page '' @ str_nat k @ ''/'' @ str_nat (length images) @ ''...''),
       Post (server a) (page_request env a images k) json_headers,
       Stderr (''Warning: No text extracted from page '' @ str_nat k)]"
    using oc pt by (simp add: page_events_def page_request_def)
  have run: "\<exists>pre post. snd (main env a) =
           pre @ [Stderr (''Processing page '' @ str_nat k @ ''/'' @ str_nat (length images) @ ''...''),
                  Post (server a) (page_request env a images k) json_headers,
                  Stderr (''Warning: No text extracted from page '' @ str_nat k)] @ post"
    using main_split_at [OF assms(1,2,3,4)] unfolding pe by blast
  have "fst (main env a) = 0"
    using main_rendered [OF assms(1,2)] by simp
  moreover have "\<not> truthy (page_text env a images k)"
    by (simp add: pt)
  ultimately show ?thesis
    using pt run run_output_without [of env a images k] by blast
qed

theorem empty_result_is_skipped_witness:
  "requests_post (sample_env 3 second_omits_field) (2 - 1) (server (sample_args ''scan.pdf'' None))
      (page_request (sample_env 3 second_omits_field) (sample_args ''scan.pdf'' None) [0, 1, 2] 2) json_headers
     = Inr (ok_response [''done'' \<mapsto> PyOther True ''True''])
   \<and> [''done'' \<mapsto> PyOther True ''True''] ''response'' = None
   \<and> page_text (sample_env 3 second_omits_field) (sample_args ''scan.pdf'' None) [0, 1, 2] 2 = PyStr ''''
   \<and> run_output (sample_env 3 second_omits_field) (sample_args ''scan.pdf'' None) [0, 1, 2]
       = ''--- Page 1 ---\<newline>text\<newline>\<newline>--- Page 3 ---\<newline>text\<newline>''
   \<and> fst (main (sample_env 3 second_omits_field) (sample_args ''scan.pdf'' None)) = 0"
proof -
  let ?env = "sample_env 3 second_omits_field" and ?a = "sample_args ''scan.pdf'' None"
  have ex: "path_exists ?env (path_str ?env (pdf_file ?a))"
    by (simp add: sample_env_def sample_args_def)
  have cv: "convert_from_path ?env (path_str ?env (pdf_file ?a)) = Inr [0, 1, 2]"
    by (simp add: sample_env_def sample_args_def upt_conv_Cons)
  have k: "1 \<le> (2::nat)" "2 \<le> length [0, 1, 2 :: nat]"
    by simp_all
  have rq: "requests_post ?env (2 - 1) (server ?a) (page_request ?env ?a [0, 1, 2] 2) json_headers
     = Inr (ok_response [''done'' \<mapsto> PyOther True ''True''])"
    by (simp add: sample_env_def second_omits_field_def)
  have ok: "raise_for_status (ok_response d) = None" "json (ok_response d) = Inr (PyDict d)" for d
    by (simp_all add: ok_response_def raise_for_status_def)
  have d: "[''done'' \<mapsto> PyOther True ''True''] ''response'' = Some (PyStr '''')
           \<or> [''done'' \<mapsto> PyOther True ''True''] ''response'' = None"
    by simp
  have pt: "page_text ?env ?a [0, 1, 2] 1 = PyStr ''text''"
      "page_text ?env ?a [0, 1, 2] 3 = PyStr ''text''"
    by (simp_all add: page_text_def ocr_image_with_ollama_def try_request_def sample_env_def
          second_omits_field_def ok_response_def raise_for_status_def dict_get_def)
  have up: "[1..<Suc (length [0, 1, 2 :: nat])] = [1, 2, 3]"
    by (simp add: upt_conv_Cons)
  show ?thesis
    using empty_result_is_skipped [OF ex cv k rq ok d] rq pt unfolding up
    by (simp add: page_block_def nl_def str_nat.simps digit_def)
qed




text \<open>
  Claim C10. Take two runs over the same pages that differ only in the answer to the
  request of page \<open>k\<close>: in one the request fails and the inference client returns
  \<^verbatim>\<open>None\<close>, in the other it succeeds and the client returns the empty string. Both runs
  exit with the same status and have the same final output, and their events are the same
  but for the one line \<^verbatim>\<open>Error calling Ollama API: e\<close> that the client itself logs in the
  first run, just before the warning for page \<open>k\<close> that both runs emit. So the driver does
  the same in both runs.
\<close>

theorem failure_and_empty_look_alike:
  assumes "path_exists env (path_str env (pdf_file a))"
    and "convert_from_path env (path_str env (pdf_file a)) = Inr images"
    and "1 \<le> k" and "k \<le> length images"
    and "env' = env\<lparr>requests_post := (requests_post env)(k - 1 := answer)\<rparr>"
    and "try_request env (k - 1) (server a) (page_request env a images k) = Inl e"
    and "try_request env' (k - 1) (server a) (page_request env a images k) = Inr (PyStr '''')"
  shows "page_text env a images k = PyNone
     \<and> page_text env' a images k = PyStr ''''
     \<and> fst (main env' a) = fst (main env a)
     \<and> run_output env' a images = run_output env a images
     \<and> (\<exists>pre post.
           snd (main env a) =
             pre @ Stderr (''Error calling Ollama API: '' @ e)
                 # Stderr (''Warning: No text extracted from page '' @ str_nat k) # post
         \<and> snd (main env' a) =
             pre @ Stderr (''Warning: No text extracted from page '' @ str_nat k) # post)"
proof -
  let ?progress = "Stderr (''Processing page '' @ str_nat k @ ''/'' @ str_nat (length images) @ ''...'')"
  let ?post = "Post (server a) (page_request env a images k) json_headers"
  let ?error = "Stderr (''Error calling Ollama API: '' @ e)"
  let ?warning = "Stderr (''Warning: No text extracted from page '' @ str_nat k)"
  let ?head = "[Stderr ''Converting PDF to images...'', ConvertFromPath (path_str env (pdf_file a)),
       Stderr (''Processing '' @ str_nat (length images) @ '' page(s)...'')]"
  have b64: "image_to_base64 env' = image_to_base64 env"
    by (rule ext) (simp add: image_to_base64_def assms(5))
  have rq: "page_request env' a images k = page_request env a images k"
    by (simp add: page_request_def b64)
  have ex': "path_exists env' (path_str env' (pdf_file a))"
    and cv': "convert_from_path env' (path_str env' (pdf_file a)) = Inr images"
    using assms(1,2) by (simp_all add: assms(5))
  note oc = ocr_failed [OF assms(6) [unfolded page_request_def]]
  note oc' = ocr_returned [OF assms(7) [unfolded page_request_def]]
  have pt: "page_text env a images k = PyNone"
    using oc by (simp add: page_text_def)
  have pt': "page_text env' a images k = PyStr ''''"
    using oc' by (simp add: page_text_def b64)
  have pe: "page_events env a images k = [?progress, ?post, ?error, ?warning]"
    using oc pt by (simp add: page_events_def page_request_def)
  have pe': "page_events env' a images k = [?progress, ?post, ?warning]"
    using oc' pt' by (simp add: page_events_def page_request_def b64)
  have out: "run_output env' a images = run_output env a images"
    unfolding assms(5) using pt pt' assms(3)
    by (intro other_answer_output) (simp_all add: assms(5))
  have before: "map (page_events env' a images) [1..<k] = map (page_events env a images) [1..<k]"
    unfolding assms(5) using assms(3) by (intro other_answer_events) simp_all
  have after: "map (page_events env' a images) [Suc k..<Suc (length images)] =
      map (page_events env a images) [Suc k..<Suc (length images)]"
    unfolding assms(5) using assms(3) by (intro other_answer_events) simp_all
  have hd': "path_str env' = path_str env"
    by (simp add: assms(5))
  let ?pre = "?head @ concat (map (page_events env a images) [1..<k]) @ [?progress, ?post]"
  let ?rest = "concat (map (page_events env a images) [Suc k..<Suc (length images)])
      @ emit a (run_output env a images)"
  have run: "snd (main env a) = ?pre @ ?error # ?warning # ?rest"
    using main_split_at [OF assms(1,2,3,4)] unfolding pe by simp
  have run': "snd (main env' a) = ?pre @ ?warning # ?rest"
    using main_split_at [OF ex' cv' assms(3,4)] unfolding pe' before after out hd' by simp
  have st: "fst (main env' a) = fst (main env a)"
    using main_rendered [OF assms(1,2)] main_rendered [OF ex' cv'] by simp
  show ?thesis
    using pt pt' st out run run' by blast
qed

theorem failure_and_empty_look_alike_witness:
  "try_request (sample_env 3 second_refused) (2 - 1) (server (sample_args ''scan.pdf'' None))
      (page_request (sample_env 3 second_refused) (sample_args ''scan.pdf'' None) [0, 1, 2] 2)
     = Inl ''Connection refused''
   \<and> try_request (empty_instead (sample_env 3 second_refused) 1) (2 - 1) (server (sample_args ''scan.pdf'' None))
      (page_request (sample_env 3 second_refused) (sample_args ''scan.pdf'' None) [0, 1, 2] 2)
     = Inr (PyStr '''')
   \<and> page_text (sample_env 3 second_refused) (sample_args ''scan.pdf'' None) [0, 1, 2] 2 = PyNone
   \<and> page_text (empty_instead (sample_env 3 second_refused) 1) (sample_args ''scan.pdf'' None) [0, 1, 2] 2
       = PyStr ''''
   \<and> fst (main (empty_instead (sample_env 3 second_refused) 1) (sample_args ''scan.pdf'' None))
       = fst (main (sample_env 3 second_refused) (sample_args ''scan.pdf'' None))
   \<and> run_output (empty_instead (sample_env 3 second_refused) 1) (sample_args ''scan.pdf'' None) [0, 1, 2]
       = run_output (sample_env 3 second_refused) (sample_args ''scan.pdf'' None) [0, 1, 2]"
proof -
  let ?env = "sample_env 3 second_refused" and ?a = "sample_args ''scan.pdf'' None"
  have ex: "path_exists ?env (path_str ?env (pdf_file ?a))"
    by (simp add: sample_env_def sample_args_def)
  have cv: "convert_from_path ?env (path_str ?env (pdf_file ?a)) = Inr [0, 1, 2]"
    by (simp add: sample_env_def sample_args_def upt_conv_Cons)
  have k: "1 \<le> (2::nat)" "2 \<le> length [0, 1, 2 :: nat]"
    by simp_all
  have e': "empty_instead ?env 1 =
      ?env\<lparr>requests_post := (requests_post ?env)(2 - 1 := (\<lambda>u p h. Inr (ok_response [''response'' \<mapsto> PyStr ''''])))\<rparr>"
    by (simp add: empty_instead_def)
  have t: "try_request ?env (2 - 1) (server ?a) (page_request ?env ?a [0, 1, 2] 2) = Inl ''Connection refused''"
    by (simp add: try_request_def sample_env_def second_refused_def)
  have t': "try_request (empty_instead ?env 1) (2 - 1) (server ?a) (page_request ?env ?a [0, 1, 2] 2)
      = Inr (PyStr '''')"
    by (simp add: try_request_def empty_instead_def ok_response_def raise_for_status_def dict_get_def)
  show ?thesis
    using failure_and_empty_look_alike [OF ex cv k e' t t'] t t' by simp
qed

text \<open>
  Claim C1, as stated, fails: \<^verbatim>\<open>f.write(result)\<close> writes the final output, while
  \<^verbatim>\<open>print(result)\<close> writes the final output and then a newline. For a one-page PDF whose
  page yields \<^verbatim>\<open>Hello\<close>, the file receives \<^verbatim>\<open>"--- Page 1 ---\nHello\n"\<close> and standard
  output receives \<^verbatim>\<open>"--- Page 1 ---\nHello\n\n"\<close>.
\<close>

theorem file_and_stdout_differ:
  "files_of (snd (main (sample_env 1 hello_then_empty) (sample_args ''scan.pdf'' (Some ''out.txt''))))
     = [(''out.txt'', ''--- Page 1 ---\<newline>Hello\<newline>'')]
   \<and> stdout_of (snd (main (sample_env 1 hello_then_empty) (sample_args ''scan.pdf'' None)))
     = ''--- Page 1 ---\<newline>Hello\<newline>\<newline>''
   \<and> map snd (files_of (snd (main (sample_env 1 hello_then_empty) (sample_args ''scan.pdf'' (Some ''out.txt'')))))
     \<noteq> [stdout_of (snd (main (sample_env 1 hello_then_empty) (sample_args ''scan.pdf'' None)))]"
proof -
  let ?env = "sample_env 1 hello_then_empty"
  have ex: "path_exists ?env (path_str ?env (pdf_file (sample_args ''scan.pdf'' out)))" for out
    by (simp add: sample_env_def sample_args_def)
  have cv: "convert_from_path ?env (path_str ?env (pdf_file (sample_args ''scan.pdf'' out))) = Inr [0]" for out
    by (simp add: sample_env_def sample_args_def)
  have pt: "page_text ?env (sample_args ''scan.pdf'' out) [0] 1 = PyStr ''Hello''" for out
    by (simp add: page_text_def ocr_image_with_ollama_def try_request_def sample_env_def
          hello_then_empty_def ok_response_def raise_for_status_def dict_get_def)
  have out: "run_output ?env (sample_args ''scan.pdf'' out) [0] = ''--- Page 1 ---\<newline>Hello\<newline>''" for out
    unfolding run_output_eq using pt [of out]
    by (simp add: page_block_def nl_def str_nat.simps digit_def)
  show ?thesis
    using main_output_events [OF ex cv] out
    by (simp add: emit_def sample_args_def nl_def)
qed

text \<open>
  Claim C1, amended. In a run that reaches the output step, with \<^verbatim>\<open>--output\<close> given a
  non-empty file name the content written to that file is exactly the final output and
  nothing goes to standard output; with \<^verbatim>\<open>--output\<close> omitted, standard output receives
  that same final output followed by one newline, and no file is written.
\<close>

theorem output_to_file_or_stdout:
  assumes "path_exists env (path_str env (pdf_file a))"
    and "convert_from_path env (path_str env (pdf_file a)) = Inr images"
  shows "(out \<noteq> [] \<longrightarrow>
            files_of (snd (main env (a\<lparr>output_opt := Some out\<rparr>))) = [(out, run_output env a images)]
          \<and> stdout_of (snd (main env (a\<lparr>output_opt := Some out\<rparr>))) = [])
     \<and> stdout_of (snd (main env (a\<lparr>output_opt := None\<rparr>))) = run_output env a images @ ''\<newline>''
     \<and> files_of (snd (main env (a\<lparr>output_opt := None\<rparr>))) = []"
proof -
  have ex: "path_exists env (path_str env (pdf_file (a\<lparr>output_opt := x\<rparr>)))"
    and cv: "convert_from_path env (path_str env (pdf_file (a\<lparr>output_opt := x\<rparr>))) = Inr images" for x
    using assms by simp_all
  show ?thesis
    unfolding main_output_events [OF ex cv] run_output_ignores_output_opt
    by (simp add: emit_def nl_def)
qed

theorem output_to_file_or_stdout_witness:
  "path_exists (sample_env 2 hello_then_empty)
     (path_str (sample_env 2 hello_then_empty) (pdf_file (sample_args ''scan.pdf'' None)))
   \<and> convert_from_path (sample_env 2 hello_then_empty)
       (path_str (sample_env 2 hello_then_empty) (pdf_file (sample_args ''scan.pdf'' None))) = Inr [0, 1]
   \<and> ''out.txt'' \<noteq> []
   \<and> files_of (snd (main (sample_env 2 hello_then_empty) ((sample_args ''scan.pdf'' None)\<lparr>output_opt := Some ''out.txt''\<rparr>)))
       = [(''out.txt'', run_output (sample_env 2 hello_then_empty) (sample_args ''scan.pdf'' None) [0, 1])]
   \<and> stdout_of (snd (main (sample_env 2 hello_then_empty) ((sample_args ''scan.pdf'' None)\<lparr>output_opt := None\<rparr>)))
       = run_output (sample_env 2 hello_then_empty) (sample_args ''scan.pdf'' None) [0, 1] @ ''\<newline>''"
proof -
  let ?env = "sample_env 2 hello_then_empty" and ?a = "sample_args ''scan.pdf'' None"
  have ex: "path_exists ?env (path_str ?env (pdf_file ?a))"
    by (simp add: sample_env_def sample_args_def)
  have cv: "convert_from_path ?env (path_str ?env (pdf_file ?a)) = Inr [0, 1]"
    by (simp add: sample_env_def sample_args_def upt_conv_Cons)
  show ?thesis
    using ex cv output_to_file_or_stdout [OF ex cv, of "''out.txt''"] by simp
qed

end
